theory Spec2Isabelle
  imports Main "HOL-Library.Product_Lexorder" "HOL-Library.List_Lexorder" "HOL-Library.Char_ord"
begin

section \<open>Per-domain rate limiter (server/src/crawler/rateLimiter.ts)\<close>

text \<open>
  The class \<open>RateLimiter\<close> keeps a delay, the time of the last request, a queue of
  waiting callers, a flag that the queue is being served and the end of the throttle
  window. Times are milliseconds since the epoch (the value of \<open>Date.now()\<close>), which
  every operation that reads the clock takes as its argument \<open>now\<close>. A waiter is
  identified by a number standing for its \<open>resolve\<close> callback. \<open>acquire\<close> and
  \<open>process\<close> read \<open>throttleUntil\<close> and write the queue, the flag and
  \<open>lastRequest\<close>; the only assignment to \<open>throttleUntil\<close> after the constructor is
  the one in \<open>throttle\<close>.
\<close>

record RateLimiter =
  delayMs :: int
  lastRequest :: int
  waiters :: "nat list"
  processing :: bool
  throttleUntil :: int

definition RateLimiter_new :: "int \<Rightarrow> RateLimiter" where
  "RateLimiter_new d =
     \<lparr>delayMs = d, lastRequest = 0, waiters = [], processing = False, throttleUntil = 0\<rparr>"

text \<open>\<open>throttle(durationMs)\<close>: \<open>this.throttleUntil = Date.now() + durationMs\<close>.\<close>

definition throttle :: "int \<Rightarrow> int \<Rightarrow> RateLimiter \<Rightarrow> RateLimiter" where
  "throttle now durationMs r = r\<lparr>throttleUntil := now + durationMs\<rparr>"

definition setDelay :: "int \<Rightarrow> RateLimiter \<Rightarrow> RateLimiter" where
  "setDelay d r = r\<lparr>delayMs := d\<rparr>"

definition getDelay :: "RateLimiter \<Rightarrow> int" where
  "getDelay r = delayMs r"

definition isThrottled :: "int \<Rightarrow> RateLimiter \<Rightarrow> bool" where
  "isThrottled now r \<longleftrightarrow> now < throttleUntil r"

section \<open>Relational store (server/src/db/schema.sql and the repositories)\<close>

text \<open>
  A table is the list of its rows, in insertion order. Timestamps are milliseconds
  (the database's \<open>NOW()\<close> is an argument \<open>now\<close>); SQL \<open>INTEGER\<close> columns are
  integers; a nullable column is an option. The columns \<open>created_at\<close>,
  \<open>updated_at\<close> and \<open>metadata\<close> of \<open>crawl_jobs\<close> and \<open>crawled_pages\<close> take no
  part in any operation below and are left out. Record fields carry a prefix where two
  tables share a column name (\<open>j_\<close> for a job, \<open>p_\<close> for a page, \<open>q_\<close> for a
  queue row).

  A statement has its relational meaning: \<open>WHERE id = $1\<close> selects the rows whose id
  is the argument, compared as text, and \<open>ON CONFLICT (job_id, normalized_url) DO
  NOTHING\<close> passes over a row whose (job_id, normalized_url) is already in the table,
  the pair being taken as a unique key of the table that the statement names (the data
  model has it as the identity of a page and of a queue entry; schema.sql declares the
  constraint for \<open>url_queue\<close>).
\<close>

datatype JobStatus = job_pending | job_running | job_paused | job_completed | job_failed | job_cancelled

datatype PageStatus = pending | crawling | completed | failed | skipped

record CrawlJob =
  j_id :: string
  seedUrl :: string
  j_domain :: string
  j_maxDepth :: int
  maxPages :: int
  maxConcurrentWorkers :: int
  j_crawlDelayMs :: int
  j_respectRobotsTxt :: bool
  j_includePatterns :: "string list"
  j_excludePatterns :: "string list"
  j_status :: JobStatus
  pagesDiscovered :: int
  pagesCrawled :: int
  pagesFailed :: int
  pagesSkipped :: int
  startedAt :: "int option"
  completedAt :: "int option"
  lastError :: "string option"
  errorCount :: int

record CrawledPage =
  p_id :: string
  p_jobId :: string
  p_url :: string
  p_normalizedUrl :: string
  p_depth :: int
  p_status :: PageStatus
  httpStatus :: "int option"
  contentType :: "string option"
  contentLength :: "int option"
  title :: "string option"
  description :: "string option"
  content :: "string option"
  linksFound :: int
  crawledAt :: "int option"
  durationMs :: "int option"
  errorMessage :: "string option"
  p_retryCount :: int

record QueueItem =
  q_id :: string
  q_jobId :: string
  q_url :: string
  q_normalizedUrl :: string
  q_depth :: int
  priority :: int
  q_status :: PageStatus
  q_retryCount :: int
  lastRetryAt :: "int option"
  createdAt :: int

text \<open>
  What a query can raise: a violated primary key, and the \<open>TypeError\<close> of reading a
  field of \<open>undefined\<close> when a result set that the code indexes at 0 is empty.
\<close>

datatype db_error = UniqueViolation string | TypeError string

subsection \<open>pageRepository.ts: createPage\<close>

record CreatePageParams =
  cp_jobId :: string
  cp_url :: string
  cp_normalizedUrl :: string
  cp_depth :: int

text \<open>The row that the \<open>INSERT\<close> of \<open>createPage\<close> writes: the five given columns, every
  other column at its default of the schema.\<close>

definition new_page_row :: "string \<Rightarrow> CreatePageParams \<Rightarrow> CrawledPage" where
  "new_page_row i params =
     \<lparr>p_id = i, p_jobId = cp_jobId params, p_url = cp_url params,
      p_normalizedUrl = cp_normalizedUrl params, p_depth = cp_depth params,
      p_status = pending, httpStatus = None, contentType = None, contentLength = None,
      title = None, description = None, content = None, linksFound = 0, crawledAt = None,
      durationMs = None, errorMessage = None, p_retryCount = 0\<rparr>"





text \<open>
  \<open>updatePageStatus(id, status, updates)\<close>: \<open>UPDATE crawled_pages SET status = $2, ...
  WHERE id = $1\<close>. The updates of the other columns are the function \<open>upd\<close>.
\<close>

definition updatePageStatus ::
  "string \<Rightarrow> PageStatus \<Rightarrow> (CrawledPage \<Rightarrow> CrawledPage) \<Rightarrow> CrawledPage list \<Rightarrow> CrawledPage list" where
  "updatePageStatus i st upd tbl =
     map (\<lambda>p. if p_id p = i then upd (p\<lparr>p_status := st\<rparr>) else p) tbl"

subsection \<open>queueRepository.ts\<close>





text \<open>
  \<open>getNextFromQueue(jobId, limit)\<close>. The inner \<open>SELECT\<close> takes the rows of the job
  with status \<open>'pending'\<close>, \<open>ORDER BY priority DESC, created_at ASC\<close> (a stable sort on
  the key (\<open>- priority\<close>, \<open>created_at\<close>) in the lexicographic order of pairs), passes
  over the rows that another transaction holds locked (\<open>SKIP LOCKED\<close>; their ids are
  \<open>locked\<close>) and stops at \<open>limit\<close> rows. The \<open>UPDATE\<close> sets the status of the rows
  with those ids to \<open>'crawling'\<close> and returns the updated rows.
\<close>

definition claim_key :: "QueueItem \<Rightarrow> int \<times> int" where
  "claim_key r = (- priority r, createdAt r)"

definition claimable :: "string list \<Rightarrow> string \<Rightarrow> QueueItem \<Rightarrow> bool" where
  "claimable locked jid r \<longleftrightarrow> q_jobId r = jid \<and> q_status r = pending \<and> q_id r \<notin> set locked"

definition unlocked_sorted :: "string list \<Rightarrow> string \<Rightarrow> QueueItem list \<Rightarrow> QueueItem list" where
  "unlocked_sorted locked jid tbl =
     filter (\<lambda>r. q_id r \<notin> set locked)
       (sort_key claim_key (filter (\<lambda>r. q_jobId r = jid \<and> q_status r = pending) tbl))"

definition select_for_claim :: "string list \<Rightarrow> string \<Rightarrow> nat \<Rightarrow> QueueItem list \<Rightarrow> QueueItem list" where
  "select_for_claim locked jid limit tbl = take limit (unlocked_sorted locked jid tbl)"

definition getNextFromQueue ::
  "string list \<Rightarrow> string \<Rightarrow> nat \<Rightarrow> QueueItem list \<Rightarrow> QueueItem list \<times> QueueItem list" where
  "getNextFromQueue locked jid limit tbl =
     (let ids = map q_id (select_for_claim locked jid limit tbl);
          tbl' = map (\<lambda>r. if q_id r \<in> set ids then r\<lparr>q_status := crawling\<rparr> else r) tbl
      in (tbl', filter (\<lambda>r. q_id r \<in> set ids) tbl'))"



definition clearQueue :: "string \<Rightarrow> QueueItem list \<Rightarrow> QueueItem list" where
  "clearQueue jid tbl = filter (\<lambda>r. q_jobId r \<noteq> jid) tbl"

subsection \<open>jobRepository.ts\<close>

definition getJobById :: "string \<Rightarrow> CrawlJob list \<Rightarrow> CrawlJob option" where
  "getJobById jid tbl = find (\<lambda>j. j_id j = jid) tbl"

text \<open>
  \<open>updateJobStatus(id, status, additionalUpdates)\<close>: \<open>UPDATE crawl_jobs SET status = $2,
  ... WHERE id = $1\<close>; the additional column updates are the function \<open>upd\<close>.
\<close>

definition updateJobStatus ::
  "string \<Rightarrow> JobStatus \<Rightarrow> (CrawlJob \<Rightarrow> CrawlJob) \<Rightarrow> CrawlJob list \<Rightarrow> CrawlJob list" where
  "updateJobStatus jid st upd tbl =
     map (\<lambda>j. if j_id j = jid then upd (j\<lparr>j_status := st\<rparr>) else j) tbl"

datatype ProgressField = pages_discovered | pages_crawled | pages_failed | pages_skipped

fun add_progress :: "ProgressField \<Rightarrow> int \<Rightarrow> CrawlJob \<Rightarrow> CrawlJob" where
  "add_progress pages_discovered n j = j\<lparr>pagesDiscovered := pagesDiscovered j + n\<rparr>"
| "add_progress pages_crawled n j = j\<lparr>pagesCrawled := pagesCrawled j + n\<rparr>"
| "add_progress pages_failed n j = j\<lparr>pagesFailed := pagesFailed j + n\<rparr>"
| "add_progress pages_skipped n j = j\<lparr>pagesSkipped := pagesSkipped j + n\<rparr>"

text \<open>\<open>incrementJobProgress(id, field, amount)\<close>: \<open>UPDATE crawl_jobs SET field = field + $2
  WHERE id = $1\<close>.\<close>

definition incrementJobProgress ::
  "string \<Rightarrow> ProgressField \<Rightarrow> int \<Rightarrow> CrawlJob list \<Rightarrow> CrawlJob list" where
  "incrementJobProgress jid field amount tbl =
     map (\<lambda>j. if j_id j = jid then add_progress field amount j else j) tbl"

section \<open>Work queue (queues.ts)\<close>

text \<open>
  The page-jobs queue of BullMQ is the list of its jobs that wait or run. A job has a
  name, its data and the options \<open>jobId\<close> and \<open>priority\<close>. \<open>addBulk\<close> passes over a
  job whose \<open>jobId\<close> the queue already holds.
\<close>




record PageSpec =
  ps_url :: string
  ps_normalizedUrl :: string
  ps_depth :: int
  ps_domain :: string
  ps_crawlDelayMs :: int
  ps_respectRobotsTxt :: bool
  ps_includePatterns :: "string list"
  ps_excludePatterns :: "string list"
  ps_maxDepth :: int

record PageJobData =
  pj_jobId :: string
  pj_url :: string
  pj_normalizedUrl :: string
  pj_depth :: int
  pj_domain :: string
  pj_crawlDelayMs :: int
  pj_respectRobotsTxt :: bool
  pj_includePatterns :: "string list"
  pj_excludePatterns :: "string list"
  pj_maxDepth :: int

record BullJob =
  bj_name :: string
  bj_data :: PageJobData
  bj_jobId :: string
  bj_priority :: int

text \<open>\<open>{ jobId, ...page }\<close>.\<close>

definition page_job_data :: "string \<Rightarrow> PageSpec \<Rightarrow> PageJobData" where
  "page_job_data jid page =
     \<lparr>pj_jobId = jid, pj_url = ps_url page, pj_normalizedUrl = ps_normalizedUrl page,
      pj_depth = ps_depth page, pj_domain = ps_domain page,
      pj_crawlDelayMs = ps_crawlDelayMs page, pj_respectRobotsTxt = ps_respectRobotsTxt page,
      pj_includePatterns = ps_includePatterns page,
      pj_excludePatterns = ps_excludePatterns page, pj_maxDepth = ps_maxDepth page\<rparr>"




text \<open>\<open>removeJobsForCrawl(jobId)\<close>.\<close>

definition removeJobsForCrawl :: "string \<Rightarrow> BullJob list \<Rightarrow> BullJob list" where
  "removeJobsForCrawl jid q = filter (\<lambda>j. pj_jobId (bj_data j) \<noteq> jid) q"

section \<open>Workers (server/src/queue/workers.ts)\<close>

text \<open>
  The state that the workers, the job manager and the API share: the three tables, the
  page-jobs queue, the set \<open>cancelledJobs\<close>, the monitor's map \<open>activeJobs\<close> (job id
  to \<open>startedAt\<close> and \<open>lastActivityAt\<close>) and the number of \<open>uuidv4()\<close> calls made so
  far. The rate limiter's \<open>acquire\<close> only delays a worker and is not part of it.
\<close>

record Store =
  jobs :: "CrawlJob list"
  pages :: "CrawledPage list"
  url_queue :: "QueueItem list"
  pageJobs :: "BullJob list"
  cancelledJobs :: "string list"
  activeJobs :: "(string \<times> int \<times> int) list"
  uuidCalls :: nat

text \<open>
  What the platform supplies: the k-th value of \<open>uuidv4()\<close>, \<open>new RegExp(p).test(s)\<close>
  (\<open>None\<close> when the constructor throws on an invalid pattern), and the two
  functions of crawler.ts that the page worker calls.
\<close>

record Env =
  uuidv4 :: "nat \<Rightarrow> string"
  regexp_test :: "string \<Rightarrow> string \<Rightarrow> bool option"
  env_normalizeUrl :: "string \<Rightarrow> string"
  env_extractLinks :: "string \<Rightarrow> string \<Rightarrow> string \<Rightarrow> string list"

datatype js_error = Error string | DbError db_error

text \<open>\<open>error instanceof Error ? error.message : 'Unknown error'\<close>; a database error is an
  \<open>Error\<close> whose message names it.\<close>

fun error_message :: "js_error \<Rightarrow> string" where
  "error_message (Error m) = m"
| "error_message (DbError (UniqueViolation k)) = ''duplicate key value violates unique constraint: '' @ k"
| "error_message (DbError (TypeError m)) = m"

record CrawlResult =
  statusCode :: int
  cr_contentType :: "string option"
  cr_contentLength :: int
  cr_title :: "string option"
  cr_description :: "string option"
  cr_content :: "string option"

text \<open>
  What one run of the page worker reads from outside: the answer of \<open>isUrlAllowed\<close>,
  the outcome of the browser fetch (a rejection or a result), and the clock before and
  after the crawl.
\<close>

record World =
  allowed :: bool
  fetched :: "js_error + CrawlResult"
  startTime :: int
  endTime :: int


definition isJobCancelled :: "string \<Rightarrow> Store \<Rightarrow> bool" where
  "isJobCancelled jid s \<longleftrightarrow> jid \<in> set (cancelledJobs s)"

definition cancelJob :: "string \<Rightarrow> Store \<Rightarrow> Store" where
  "cancelJob jid s = s\<lparr>cancelledJobs := List.insert jid (cancelledJobs s)\<rparr>"

record CrawlJobData =
  cj_jobId :: string
  cj_seedUrl :: string
  cj_domain :: string
  cj_maxDepth :: int
  cj_maxPages :: int
  cj_maxConcurrentWorkers :: int
  cj_crawlDelayMs :: int
  cj_respectRobotsTxt :: bool
  cj_includePatterns :: "string list"
  cj_excludePatterns :: "string list"

definition seed_spec :: "Env \<Rightarrow> CrawlJobData \<Rightarrow> PageSpec" where
  "seed_spec env d =
     \<lparr>ps_url = cj_seedUrl d, ps_normalizedUrl = env_normalizeUrl env (cj_seedUrl d),
      ps_depth = 0, ps_domain = cj_domain d, ps_crawlDelayMs = cj_crawlDelayMs d,
      ps_respectRobotsTxt = cj_respectRobotsTxt d,
      ps_includePatterns = cj_includePatterns d, ps_excludePatterns = cj_excludePatterns d,
      ps_maxDepth = cj_maxDepth d\<rparr>"










text \<open>The \<open>catch\<close> block: the page update with status \<open>'failed'\<close> and
  \<open>retryCount: (job.attemptsMade || 0) + 1\<close>, then \<open>pages_failed\<close> plus one; the caller
  throws the error again.\<close>

definition page_catch :: "World \<Rightarrow> PageJobData \<Rightarrow> nat \<Rightarrow> js_error \<Rightarrow> Store \<Rightarrow> Store" where
  "page_catch w d attemptsMade e s =
     (let s1 = s\<lparr>pages := updatePageStatus (pj_normalizedUrl d) failed
                             (\<lambda>p. p\<lparr>errorMessage := Some (error_message e),
                                    crawledAt := Some (endTime w),
                                    durationMs := Some (endTime w - startTime w),
                                    p_retryCount := int attemptsMade + 1\<rparr>)
                             (pages s)\<rparr>
      in s1\<lparr>jobs := incrementJobProgress (pj_jobId d) pages_failed 1 (jobs s1)\<rparr>)"


section \<open>Job manager (jobs/jobManager.ts) and the cancel, pause and resume routes\<close>

definition stopJobMonitoring :: "string \<Rightarrow> Store \<Rightarrow> Store" where
  "stopJobMonitoring jid s = s\<lparr>activeJobs := filter (\<lambda>e. fst e \<noteq> jid) (activeJobs s)\<rparr>"

definition startJobMonitoring :: "int \<Rightarrow> string \<Rightarrow> Store \<Rightarrow> Store" where
  "startJobMonitoring now jid s =
     (if jid \<in> set (map fst (activeJobs s)) then s
      else s\<lparr>activeJobs := activeJobs s @ [(jid, now, now)]\<rparr>)"




text \<open>\<open>cancelCrawlJob(jobId)\<close>.\<close>

definition cancelCrawlJob :: "string \<Rightarrow> Store \<Rightarrow> Store" where
  "cancelCrawlJob jid s =
     (let s1 = cancelJob jid s;
          s2 = s1\<lparr>pageJobs := removeJobsForCrawl jid (pageJobs s1)\<rparr>;
          s3 = s2\<lparr>url_queue := clearQueue jid (url_queue s2)\<rparr>
      in stopJobMonitoring jid s3)"

text \<open>
  The format that \<open>z.string().uuid()\<close> accepts: 36 characters, hyphens at positions 8,
  13, 18 and 23, hexadecimal digits elsewhere.
\<close>

definition hex_digit :: "char \<Rightarrow> bool" where
  "hex_digit c \<longleftrightarrow> c \<in> set ''0123456789abcdefABCDEF''"

definition is_uuid :: "string \<Rightarrow> bool" where
  "is_uuid x \<longleftrightarrow>
     length x = 36
     \<and> (\<forall>k \<in> set [0 ..< 36].
           if k \<in> {8, 13, 18, 23} then x ! k = CHR ''-'' else hex_digit (x ! k))"

text \<open>
  The three routes: the state after the request and the HTTP status of the response.
  \<open>DELETE /api/jobs/:jobId\<close> refuses a job whose status is \<open>'completed'\<close> or
  \<open>'cancelled'\<close>.
\<close>

definition cancel_route :: "int \<Rightarrow> string \<Rightarrow> Store \<Rightarrow> Store \<times> nat" where
  "cancel_route now jid s =
     (if \<not> is_uuid jid then (s, 400)
      else case getJobById jid (jobs s) of
             None \<Rightarrow> (s, 404)
           | Some job \<Rightarrow>
               if j_status job = job_completed \<or> j_status job = job_cancelled then (s, 400)
               else (let s1 = cancelCrawlJob jid s
                     in (s1\<lparr>jobs := updateJobStatus jid job_cancelled
                                      (\<lambda>j. j\<lparr>completedAt := Some now\<rparr>) (jobs s1)\<rparr>, 200)))"

definition pause_route :: "string \<Rightarrow> Store \<Rightarrow> Store \<times> nat" where
  "pause_route jid s =
     (if \<not> is_uuid jid then (s, 400)
      else case getJobById jid (jobs s) of
             None \<Rightarrow> (s, 404)
           | Some job \<Rightarrow>
               if j_status job \<noteq> job_running then (s, 400)
               else (s\<lparr>jobs := updateJobStatus jid job_paused (\<lambda>j. j) (jobs s)\<rparr>, 200))"

definition resume_route :: "string \<Rightarrow> Store \<Rightarrow> Store \<times> nat" where
  "resume_route jid s =
     (if \<not> is_uuid jid then (s, 400)
      else case getJobById jid (jobs s) of
             None \<Rightarrow> (s, 404)
           | Some job \<Rightarrow>
               if j_status job \<noteq> job_paused then (s, 400)
               else (s\<lparr>jobs := updateJobStatus jid job_running (\<lambda>j. j) (jobs s)\<rparr>, 200))"

section \<open>URLs (server/src/crawler/crawler.ts and the platform's URL classes)\<close>

text \<open>
  \<open>normalizeUrl\<close>, \<open>isInDomain\<close> and \<open>extractLinks\<close> work on the platform's \<open>URL\<close>
  and \<open>URLSearchParams\<close> objects. A parsed URL is the record of the six components
  that the code reads and writes, each as the getter of that name returns it
  (\<open>protocol\<close> with its colon, \<open>search\<close> with its question mark, \<open>hash\<close> with its
  number sign, the last two empty when the part is absent or empty).

  The parser below is the parser of the URL standard on these inputs:
  \<^item> the scheme is \<open>http\<close> or \<open>https\<close> in any case, followed by \<open>://\<close>;
  \<^item> the host is made of letters, digits, hyphens and dots, its labels are not empty and
    do not start with \<open>xn--\<close>, and its last label starts with a letter (so it is a
    domain and not an IPv4 address); there is no user name or password;
  \<^item> the port, if any, has one to four digits and no leading zero;
  \<^item> the path is made of letters, digits and \<open>-._~!$&()*+,;=:@/\<close> and has no segment
    \<open>.\<close> or \<open>..\<close>; the query is made of letters, digits and \<open>*-._=&\<close>;
  \<^item> the fragment is any text.
  On such an input nothing is percent-encoded or decoded and no path segment is
  resolved, so every component is a piece of the input, with scheme and host in lower
  case. Every other string is rejected (\<open>None\<close>, the \<open>TypeError\<close> of \<open>new URL\<close>); the
  platform's parser accepts some of them.
\<close>

definition starts_with :: "string \<Rightarrow> string \<Rightarrow> bool" where
  "starts_with p s \<longleftrightarrow> take (length p) s = p"


definition upper_chars :: string where
  "upper_chars = ''ABCDEFGHIJKLMNOPQRSTUVWXYZ''"

definition lower_chars :: string where
  "lower_chars = ''abcdefghijklmnopqrstuvwxyz''"


text \<open>\<open>toLowerCase()\<close> on one ASCII character.\<close>

definition to_lower :: "char \<Rightarrow> char" where
  "to_lower c = (case map_of (zip upper_chars lower_chars) c of Some l \<Rightarrow> l | None \<Rightarrow> c)"

text \<open>The text before the first \<open>c\<close> and the text after it (empty when there is no
  \<open>c\<close>).\<close>

definition before :: "char \<Rightarrow> string \<Rightarrow> string" where
  "before c s = takeWhile (\<lambda>x. x \<noteq> c) s"

definition after :: "char \<Rightarrow> string \<Rightarrow> string" where
  "after c s = drop 1 (dropWhile (\<lambda>x. x \<noteq> c) s)"

text \<open>\<open>s.split(c)\<close> and \<open>pieces.join(c)\<close>.\<close>

fun split_on :: "char \<Rightarrow> string \<Rightarrow> string list" where
  "split_on c [] = [[]]"
| "split_on c (x # xs) =
     (if x = c then [] # split_on c xs
      else (case split_on c xs of
              [] \<Rightarrow> [[x]]
            | p # ps \<Rightarrow> (x # p) # ps))"

fun join_with :: "char \<Rightarrow> string list \<Rightarrow> string" where
  "join_with c [] = []"
| "join_with c [p] = p"
| "join_with c (p # q # ps) = p @ c # join_with c (q # ps)"
























text \<open>
  \<open>URLSearchParams\<close> is the list of its (name, value) pairs. The constructor drops a
  leading \<open>?\<close>, splits at \<open>&\<close>, passes over empty pieces and splits each piece at its
  first \<open>=\<close>; \<open>toString()\<close> joins \<open>name=value\<close> with \<open>&\<close>; \<open>delete(name)\<close> removes
  every pair of that name. The setter of \<open>search\<close> drops a leading \<open>?\<close> and stores an
  empty query as no query.
\<close>

definition parse_pair :: "string \<Rightarrow> string \<times> string" where
  "parse_pair s = (before (CHR ''='') s, after (CHR ''='') s)"

definition URLSearchParams :: "string \<Rightarrow> (string \<times> string) list" where
  "URLSearchParams init =
     map parse_pair
       (filter (\<lambda>p. p \<noteq> [])
          (split_on (CHR ''&'') (if starts_with ''?'' init then drop 1 init else init)))"























section \<open>Concrete inputs\<close>

text \<open>A small url queue, a job as \<open>createJob\<close> writes it with the defaults of the
  \<open>POST /api/crawl\<close> route, and the state that holds only that job.\<close>

definition example_row :: "string \<Rightarrow> string \<Rightarrow> int \<Rightarrow> int \<Rightarrow> PageStatus \<Rightarrow> QueueItem" where
  "example_row i jid pr cr st =
     \<lparr>q_id = i, q_jobId = jid, q_url = ''https://a.test/'' @ i,
      q_normalizedUrl = ''https://a.test/'' @ i, q_depth = 1, priority = pr, q_status = st,
      q_retryCount = 0, lastRetryAt = None, createdAt = cr\<rparr>"

definition example_queue :: "QueueItem list" where
  "example_queue =
     [example_row ''a'' ''j1'' 0 1 pending, example_row ''b'' ''j1'' 5 2 pending,
      example_row ''c'' ''j1'' 5 3 pending, example_row ''d'' ''j1'' 9 0 completed,
      example_row ''e'' ''j2'' 9 0 pending, example_row ''f'' ''j1'' 0 4 pending]"


definition example_jid :: string where
  "example_jid = ''11111111-1111-4111-8111-111111111111''"

definition example_job :: "JobStatus \<Rightarrow> CrawlJob" where
  "example_job st =
     \<lparr>j_id = example_jid, seedUrl = ''https://a.test/'', j_domain = ''a.test'',
      j_maxDepth = 10, maxPages = 100000, maxConcurrentWorkers = 10, j_crawlDelayMs = 1000,
      j_respectRobotsTxt = True, j_includePatterns = [], j_excludePatterns = [],
      j_status = st, pagesDiscovered = 0, pagesCrawled = 0, pagesFailed = 0,
      pagesSkipped = 0, startedAt = None, completedAt = None, lastError = None,
      errorCount = 0\<rparr>"

definition example_store :: "JobStatus \<Rightarrow> Store" where
  "example_store st =
     \<lparr>jobs = [example_job st], pages = [], url_queue = [], pageJobs = [],
      cancelledJobs = [], activeJobs = [], uuidCalls = 0\<rparr>"

definition example_data :: CrawlJobData where
  "example_data =
     \<lparr>cj_jobId = example_jid, cj_seedUrl = ''https://a.test/'', cj_domain = ''a.test'',
      cj_maxDepth = 10, cj_maxPages = 100000, cj_maxConcurrentWorkers = 10,
      cj_crawlDelayMs = 1000, cj_respectRobotsTxt = True, cj_includePatterns = [],
      cj_excludePatterns = []\<rparr>"

text \<open>Readers of one job's status and of its four counters
  (discovered, crawled, failed, skipped).\<close>

definition job_status :: "string \<Rightarrow> Store \<Rightarrow> JobStatus option" where
  "job_status jid s = map_option j_status (getJobById jid (jobs s))"








definition seed_job :: "Env \<Rightarrow> PageJobData" where
  "seed_job env = page_job_data example_jid (seed_spec env example_data)"








section \<open>Results: rate limiter\<close>

text \<open>
  C6 (as the code has it). A call \<open>throttle(d)\<close> at time \<open>now\<close> overwrites the end of
  the throttle window: afterwards \<open>throttleUntil\<close> is \<open>now + d\<close>, whatever it was
  before, and no other field of the limiter changes. The new value is the maximum of
  the previous value and \<open>now + d\<close> exactly when the previous value is at most
  \<open>now + d\<close>.
\<close>

theorem throttle_overwrites:
  "throttleUntil (throttle now d r) = now + d
   \<and> delayMs (throttle now d r) = delayMs r
   \<and> lastRequest (throttle now d r) = lastRequest r
   \<and> waiters (throttle now d r) = waiters r
   \<and> processing (throttle now d r) = processing r
   \<and> ((throttleUntil (throttle now d r) = max (throttleUntil r) (now + d))
        = (throttleUntil r \<le> now + d))"
  by (auto simp: throttle_def)

theorem throttle_overwrites_witness:
  "throttleUntil (throttle 5000 2000 (RateLimiter_new 1000)) = 7000
   \<and> throttleUntil (throttle 5000 2000 (RateLimiter_new 1000))
       = max (throttleUntil (RateLimiter_new 1000)) (5000 + 2000)"
  using throttle_overwrites [of 5000 2000 "RateLimiter_new 1000"]
  by (simp add: RateLimiter_new_def)

text \<open>
  C6 as stated fails: a limiter throttled for 60 s at time 0 and throttled again for
  1 s at time 1000 ends its window at 2000, earlier than the 60000 it had and than the
  maximum of the two.
\<close>

theorem throttle_max_counterexample:
  "throttleUntil (throttle 1000 1000 (throttle 0 60000 (RateLimiter_new 1000)))
     \<noteq> max (throttleUntil (throttle 0 60000 (RateLimiter_new 1000))) (1000 + 1000)
   \<and> throttleUntil (throttle 1000 1000 (throttle 0 60000 (RateLimiter_new 1000)))
     < throttleUntil (throttle 0 60000 (RateLimiter_new 1000))"
  by (simp add: throttle_def RateLimiter_new_def)

section \<open>Results: the store\<close>

subsection \<open>createPage\<close>


lemma new_page_row_key [simp]:
  "p_jobId (new_page_row i params) = cp_jobId params"
  "p_normalizedUrl (new_page_row i params) = cp_normalizedUrl params"
  by (simp_all add: new_page_row_def)





subsection \<open>Priorities\<close>






subsection \<open>Claiming from the queue\<close>

lemma take_sorted_min:
  assumes "sorted (map f xs)" "x \<in> set (take n xs)" "y \<in> set (drop n xs)"
  shows "f x \<le> f y"
proof -
  have "sorted (map f (take n xs) @ map f (drop n xs))"
    using assms(1) by (metis append_take_drop_id map_append)
  then show ?thesis using assms(2,3) by (auto simp: sorted_append)
qed

lemma select_take:
  "select_for_claim locked jid n tbl = take n (unlocked_sorted locked jid tbl)"
  by (simp add: select_for_claim_def)

lemma set_unlocked_sorted:
  "set (unlocked_sorted locked jid tbl) = {r \<in> set tbl. claimable locked jid r}"
  by (auto simp: unlocked_sorted_def claimable_def)

lemma length_unlocked_sorted:
  "length (unlocked_sorted locked jid tbl) = length (filter (claimable locked jid) tbl)"
proof -
  have "unlocked_sorted locked jid tbl
        = sort_key claim_key (filter (\<lambda>r. q_id r \<notin> set locked)
            (filter (\<lambda>r. q_jobId r = jid \<and> q_status r = pending) tbl))"
    by (simp add: unlocked_sorted_def filter_sort)
  also have "filter (\<lambda>r. q_id r \<notin> set locked)
            (filter (\<lambda>r. q_jobId r = jid \<and> q_status r = pending) tbl)
         = filter (claimable locked jid) tbl"
    by (auto simp: claimable_def intro: filter_cong)
  finally show ?thesis by simp
qed

lemma sorted_unlocked_sorted: "sorted (map claim_key (unlocked_sorted locked jid tbl))"
  by (simp add: unlocked_sorted_def sorted_filter)

lemma distinct_unlocked_sorted:
  assumes "distinct (map q_id tbl)"
  shows "distinct (map q_id (unlocked_sorted locked jid tbl))"
proof -
  have d: "distinct tbl" and i: "inj_on q_id (set tbl)"
    using assms by (simp_all add: distinct_map)
  have "distinct (unlocked_sorted locked jid tbl)"
    using d by (simp add: unlocked_sorted_def)
  moreover have "inj_on q_id (set (unlocked_sorted locked jid tbl))"
    by (rule inj_on_subset [OF i]) (auto simp: set_unlocked_sorted)
  ultimately show ?thesis by (simp add: distinct_map)
qed

lemma select_subset:
  "set (select_for_claim locked jid n tbl) \<subseteq> {r \<in> set tbl. claimable locked jid r}"
  using set_take_subset [of n "unlocked_sorted locked jid tbl"]
  by (simp add: select_take set_unlocked_sorted)

lemma select_distinct:
  "distinct (map q_id tbl) \<Longrightarrow> distinct (map q_id (select_for_claim locked jid n tbl))"
  by (simp add: select_take take_map [symmetric] distinct_unlocked_sorted)

lemma select_length:
  "length (select_for_claim locked jid n tbl) = min n (length (filter (claimable locked jid) tbl))"
  by (simp add: select_take length_unlocked_sorted min.commute)

lemma id_in_select:
  assumes "distinct (map q_id tbl)" "r \<in> set tbl"
  shows "q_id r \<in> q_id ` set (select_for_claim locked jid n tbl)
         \<longleftrightarrow> r \<in> set (select_for_claim locked jid n tbl)"
proof
  assume "q_id r \<in> q_id ` set (select_for_claim locked jid n tbl)"
  then obtain x where x: "x \<in> set (select_for_claim locked jid n tbl)" "q_id x = q_id r"
    by auto
  then have "x \<in> set tbl" using select_subset by blast
  moreover have "inj_on q_id (set tbl)" using assms(1) by (simp add: distinct_map)
  ultimately have "x = r" using assms(2) x(2) by (auto dest: inj_onD)
  then show "r \<in> set (select_for_claim locked jid n tbl)" using x(1) by simp
qed auto

lemma select_best:
  assumes "r \<in> set (select_for_claim locked jid n tbl)"
    and "r0 \<in> set tbl" "claimable locked jid r0"
    and "r0 \<notin> set (select_for_claim locked jid n tbl)"
  shows "claim_key r \<le> claim_key r0"
proof -
  have "r0 \<in> set (unlocked_sorted locked jid tbl)"
    using assms(2,3) by (simp add: set_unlocked_sorted)
  then have "r0 \<in> set (take n (unlocked_sorted locked jid tbl)) \<union> set (drop n (unlocked_sorted locked jid tbl))"
    by (metis append_take_drop_id set_append)
  then have "r0 \<in> set (drop n (unlocked_sorted locked jid tbl))"
    using assms(4) by (simp add: select_take)
  then show ?thesis
    using take_sorted_min [OF sorted_unlocked_sorted] assms(1) by (simp add: select_take)
qed

lemma claim_key_le:
  "claim_key r \<le> claim_key r0 \<longleftrightarrow>
     priority r0 < priority r \<or> (priority r0 = priority r \<and> createdAt r \<le> createdAt r0)"
  by (auto simp: claim_key_def)

lemma filter_mark:
  "filter (\<lambda>r. q_id r \<in> A) (map (\<lambda>r. if q_id r \<in> A then r\<lparr>q_status := crawling\<rparr> else r) xs)
     = map (\<lambda>r. r\<lparr>q_status := crawling\<rparr>) (filter (\<lambda>r. q_id r \<in> A) xs)"
  by (induction xs) auto

lemma getNext_out:
  assumes "distinct (map q_id tbl)"
  shows "snd (getNextFromQueue locked jid n tbl)
         = map (\<lambda>r. r\<lparr>q_status := crawling\<rparr>)
             (filter (\<lambda>r. r \<in> set (select_for_claim locked jid n tbl)) tbl)"
proof -
  let ?sel = "select_for_claim locked jid n tbl"
  have "snd (getNextFromQueue locked jid n tbl)
        = filter (\<lambda>r. q_id r \<in> q_id ` set ?sel)
            (map (\<lambda>r. if q_id r \<in> q_id ` set ?sel then r\<lparr>q_status := crawling\<rparr> else r) tbl)"
    by (simp add: getNextFromQueue_def Let_def)
  also have "\<dots> = map (\<lambda>r. r\<lparr>q_status := crawling\<rparr>) (filter (\<lambda>r. q_id r \<in> q_id ` set ?sel) tbl)"
    by (rule filter_mark)
  also have "filter (\<lambda>r. q_id r \<in> q_id ` set ?sel) tbl = filter (\<lambda>r. r \<in> set ?sel) tbl"
    by (rule filter_cong [OF refl]) (rule id_in_select [OF assms])
  finally show ?thesis .
qed

lemma set_filter_select:
  "set (filter (\<lambda>r. r \<in> set (select_for_claim locked jid n tbl)) tbl)
     = set (select_for_claim locked jid n tbl)"
  using select_subset [of locked jid n tbl] by auto

lemma length_filter_select:
  assumes "distinct (map q_id tbl)"
  shows "length (filter (\<lambda>r. r \<in> set (select_for_claim locked jid n tbl)) tbl)
     = length (select_for_claim locked jid n tbl)"
proof -
  have "distinct tbl" using assms by (simp add: distinct_map)
  then have "distinct (filter (\<lambda>r. r \<in> set (select_for_claim locked jid n tbl)) tbl)" by simp
  moreover have "distinct (select_for_claim locked jid n tbl)"
    using select_distinct [OF assms] by (simp add: distinct_map)
  ultimately show ?thesis
    using set_filter_select [of locked jid n tbl] by (metis distinct_card)
qed

text \<open>
  C4. On a table whose ids are distinct (\<open>id\<close> is the primary key), with \<open>locked\<close> the
  ids of the rows that other claimers hold locked, \<open>getNextFromQueue(jobId, n)\<close>
  returns min(n, number of claimable rows) rows with distinct ids; each returned row
  is a row of the job that was pending and not locked, now with status
  \<open>'crawling'\<close>; every claimable row that was not taken has a lower priority than each
  returned row, or the same priority and a \<open>created_at\<close> that is not older; and the
  table afterwards is the table before with exactly the returned ids set to
  \<open>'crawling'\<close>.
\<close>

theorem getNextFromQueue_claims:
  assumes pk: "distinct (map q_id tbl)"
    and res: "getNextFromQueue locked jid n tbl = (tbl', out)"
  shows "length out = min n (length (filter (claimable locked jid) tbl))
    \<and> distinct (map q_id out)
    \<and> (\<forall>r \<in> set out. \<exists>r0 \<in> set tbl. claimable locked jid r0 \<and> r = r0\<lparr>q_status := crawling\<rparr>)
    \<and> (\<forall>r \<in> set out. \<forall>r0 \<in> set tbl.
          claimable locked jid r0 \<and> q_id r0 \<notin> q_id ` set out \<longrightarrow>
          priority r0 < priority r \<or> (priority r0 = priority r \<and> createdAt r \<le> createdAt r0))
    \<and> tbl' = map (\<lambda>r. if q_id r \<in> q_id ` set out then r\<lparr>q_status := crawling\<rparr> else r) tbl"
proof -
  let ?sel = "select_for_claim locked jid n tbl"
  let ?mark = "\<lambda>r. r\<lparr>q_status := crawling\<rparr>"
  have out: "out = map ?mark (filter (\<lambda>r. r \<in> set ?sel) tbl)"
    using getNext_out [OF pk, of locked jid n] res by simp
  have set_out: "set out = ?mark ` set ?sel"
    by (simp add: out set_filter_select del: set_filter)
  have ids: "q_id ` set out = q_id ` set ?sel"
    by (auto simp: set_out image_image)
  have len: "length out = min n (length (filter (claimable locked jid) tbl))"
    by (simp add: out length_filter_select [OF pk] select_length)
  have "map q_id out = map q_id (filter (\<lambda>r. r \<in> set ?sel) tbl)"
    by (simp add: out)
  then have dist: "distinct (map q_id out)"
    using pk by (simp add: distinct_map_filter)
  have orig: "\<forall>r \<in> set out. \<exists>r0 \<in> set tbl. claimable locked jid r0 \<and> r = r0\<lparr>q_status := crawling\<rparr>"
    using select_subset [of locked jid n tbl] by (auto simp: set_out)
  have best: "\<forall>r \<in> set out. \<forall>r0 \<in> set tbl.
          claimable locked jid r0 \<and> q_id r0 \<notin> q_id ` set out \<longrightarrow>
          priority r0 < priority r \<or> (priority r0 = priority r \<and> createdAt r \<le> createdAt r0)"
  proof (intro ballI impI)
    fix r r0
    assume r: "r \<in> set out" and r0: "r0 \<in> set tbl"
      and c: "claimable locked jid r0 \<and> q_id r0 \<notin> q_id ` set out"
    from r obtain x where x: "x \<in> set ?sel" "r = ?mark x" by (auto simp: set_out)
    have "r0 \<notin> set ?sel" using c ids by auto
    then have "claim_key x \<le> claim_key r0" using select_best x(1) r0 c by blast
    then show "priority r0 < priority r \<or> (priority r0 = priority r \<and> createdAt r \<le> createdAt r0)"
      by (simp add: claim_key_le x(2))
  qed
  have tbl': "tbl' = map (\<lambda>r. if q_id r \<in> q_id ` set out then r\<lparr>q_status := crawling\<rparr> else r) tbl"
    using res by (simp add: ids getNextFromQueue_def Let_def)
  show ?thesis using len dist orig best tbl' by blast
qed

theorem getNextFromQueue_claims_witness:
  "distinct (map q_id example_queue)
   \<and> map q_id (snd (getNextFromQueue [''b''] ''j1'' 2 example_queue)) = [''a'', ''c'']
   \<and> length (snd (getNextFromQueue [''b''] ''j1'' 2 example_queue))
       = min 2 (length (filter (claimable [''b''] ''j1'') example_queue))
   \<and> map q_status (fst (getNextFromQueue [''b''] ''j1'' 2 example_queue))
       = [crawling, pending, crawling, completed, pending, pending]"
proof -
  have pk: "distinct (map q_id example_queue)"
    by (simp add: example_queue_def example_row_def)
  have ev: "map q_id (snd (getNextFromQueue [''b''] ''j1'' 2 example_queue)) = [''a'', ''c'']"
      "map q_status (fst (getNextFromQueue [''b''] ''j1'' 2 example_queue))
       = [crawling, pending, crawling, completed, pending, pending]"
    by (simp_all add: getNextFromQueue_def select_for_claim_def unlocked_sorted_def example_queue_def example_row_def
        claim_key_def Let_def)
  show ?thesis
    using pk ev getNextFromQueue_claims [OF pk surjective_pairing, of "[''b'']" "''j1''" 2]
    by simp
qed

section \<open>Results: the page worker\<close>








lemma seed_job_id [simp]: "pj_jobId (seed_job env) = example_jid"
  by (simp add: seed_job_def page_job_data_def)




lemma page_catch_cancelled [simp]:
  "isJobCancelled jid (page_catch w d n e s) = isJobCancelled jid s"
  by (simp add: page_catch_def isJobCancelled_def Let_def)






section \<open>Results: the job manager and the routes\<close>




lemma is_uuid_example: "is_uuid example_jid"
  by (simp add: is_uuid_def example_jid_def hex_digit_def upt_rec [of _ "numeral _"] nth_Cons')

text \<open>
  C5, at a failing input. \<open>DELETE /api/jobs/:jobId\<close> on a job whose status is
  \<open>'failed'\<close> answers 200 and leaves the job \<open>'cancelled'\<close>: the route refuses
  \<open>'completed'\<close> and \<open>'cancelled'\<close> only.
\<close>

theorem cancel_route_failed_job:
  "job_status example_jid (example_store job_failed) = Some job_failed
   \<and> snd (cancel_route 5000 example_jid (example_store job_failed)) = 200
   \<and> job_status example_jid (fst (cancel_route 5000 example_jid (example_store job_failed)))
       = Some job_cancelled"
  by (simp add: cancel_route_def is_uuid_example job_status_def getJobById_def example_store_def
      example_job_def cancelCrawlJob_def cancelJob_def stopJobMonitoring_def updateJobStatus_def
      Let_def)

section \<open>Results: URLs\<close>








lemma lower_not_upper: "\<forall>l \<in> set lower_chars. map_of (zip upper_chars lower_chars) l = None"
  by (simp add: upper_chars_def lower_chars_def)

lemma to_lower_idem [simp]: "to_lower (to_lower c) = to_lower c"
proof (cases "map_of (zip upper_chars lower_chars) c")
  case None
  then show ?thesis by (simp add: to_lower_def)
next
  case (Some l)
  then have "l \<in> set lower_chars" by (meson in_set_zipE map_of_SomeD)
  then have "map_of (zip upper_chars lower_chars) l = None" using lower_not_upper by blast
  then show ?thesis using Some by (simp add: to_lower_def)
qed

lemma map_to_lower_idem [simp]: "map to_lower (map to_lower s) = map to_lower s"
  by simp














lemma split_on_nonempty [simp]: "split_on c s \<noteq> []"
  by (induction s) (auto split: list.split)








lemma hd_join_with: "ps \<noteq> [] \<Longrightarrow> hd ps \<noteq> [] \<Longrightarrow> hd (join_with c ps) = hd (hd ps)"
  by (induction c ps rule: join_with.induct) auto










lemma URLSearchParams_Nil [simp]: "URLSearchParams [] = []"
  by (simp add: URLSearchParams_def starts_with_def)

























































end
